theory Spec2Isabelle
  imports Main "HOL-Library.Sublist"
begin

section \<open>Python strings\<close>

text \<open>
  A Python \<^verbatim>\<open>str\<close> is the sequence of its code points, so \<^verbatim>\<open>len\<close> is \<open>length\<close>, \<^verbatim>\<open>+\<close> is
  \<open>@\<close>, and \<^verbatim>\<open>t in s\<close> is \<open>sublist t s\<close>. A literal is written \<open>str ''...''\<close>; a code point
  beyond ASCII is spliced in as a number.

  The Unicode tables behind \<^verbatim>\<open>str.lower\<close> are modelled on the ASCII range only: \<open>py_lower\<close>
  maps \<^verbatim>\<open>A-Z\<close> to \<^verbatim>\<open>a-z\<close> and keeps every other code point. The whitespace removed by
  \<^verbatim>\<open>str.strip()\<close> is the full set of code points for which \<^verbatim>\<open>str.isspace\<close> holds.
\<close>

type_synonym pystr = "nat list"

definition str :: "string \<Rightarrow> pystr" where
  "str s = map of_char s"

definition lower_cp :: "nat \<Rightarrow> nat" where
  "lower_cp c = (if 65 \<le> c \<and> c \<le> 90 then c + 32 else c)"

definition py_lower :: "pystr \<Rightarrow> pystr" where
  "py_lower s = map lower_cp s"

definition is_space :: "nat \<Rightarrow> bool" where
  "is_space c \<longleftrightarrow>
     (9 \<le> c \<and> c \<le> 13) \<or> (28 \<le> c \<and> c \<le> 32) \<or> c = 133 \<or> c = 160 \<or> c = 5760 \<or>
     (8192 \<le> c \<and> c \<le> 8202) \<or> c = 8232 \<or> c = 8233 \<or> c = 8239 \<or> c = 8287 \<or> c = 12288"

definition py_lstrip :: "pystr \<Rightarrow> pystr" where
  "py_lstrip s = dropWhile is_space s"

definition py_rstrip :: "pystr \<Rightarrow> pystr" where
  "py_rstrip s = rev (dropWhile is_space (rev s))"

definition py_strip :: "pystr \<Rightarrow> pystr" where
  "py_strip s = py_rstrip (py_lstrip s)"

fun py_join :: "pystr \<Rightarrow> pystr list \<Rightarrow> pystr" where
  "py_join sep [] = []"
| "py_join sep [x] = x"
| "py_join sep (x # y # ys) = x @ sep @ py_join sep (y # ys)"

section \<open>The chat application (app.py)\<close>

subsection \<open>Synonym table and query expansion\<close>

text \<open>The dict literal \<^verbatim>\<open>SYNONYM_MAP\<close>; a Python dict iterates in insertion order.\<close>

definition SYNONYM_MAP :: "(pystr \<times> pystr) list" where
  "SYNONYM_MAP =
    [(str ''heart attack'', str ''myocardial infarction''),
     (str ''stroke'', str ''cerebrovascular accident''),
     (str ''flu'', str ''influenza''),
     (str ''chickenpox'', str ''varicella''),
     (str ''whooping cough'', str ''pertussis''),
     (str ''lockjaw'', str ''tetanus''),
     (str ''german measles'', str ''rubella'')]"

text \<open>
  The loop \<^verbatim>\<open>for layman, medical in SYNONYM_MAP.items()\<close> of \<^verbatim>\<open>retrieve_icd_context\<close>:
  each test reads the query as extended so far.
\<close>

fun expand_synonyms :: "(pystr \<times> pystr) list \<Rightarrow> pystr \<Rightarrow> pystr" where
  "expand_synonyms [] normalized_query = normalized_query"
| "expand_synonyms ((layman, medical) # rest) normalized_query =
     expand_synonyms rest
       (if sublist layman normalized_query
        then normalized_query @ str '' '' @ medical
        else normalized_query)"

text \<open>Lines 31 to 36 of app.py: the query that is sent to the retriever first.\<close>

definition expand_query :: "pystr \<Rightarrow> pystr" where
  "expand_query query = expand_synonyms SYNONYM_MAP (py_strip (py_lower query))"




subsection \<open>Retrieval\<close>

text \<open>
  A retrieved document carries its text and a metadata dict; the application reads the keys
  \<^verbatim>\<open>icd_code\<close> and \<^verbatim>\<open>browser_url\<close>, both strings.
\<close>

record doc =
  page_content :: pystr
  metadata :: "(pystr \<times> pystr) list"

definition dict_get :: "(pystr \<times> pystr) list \<Rightarrow> pystr \<Rightarrow> pystr \<Rightarrow> pystr" where
  "dict_get d k dflt = (case map_of d k of None \<Rightarrow> dflt | Some v \<Rightarrow> v)"

text \<open>
  The vector store and the language model are the two external services of the application.
  The store is a function from \<^verbatim>\<open>top_k\<close> and a query to the ranked documents, the model a
  function from a prompt to its completion; both are taken to return. Every call is
  recorded, in order, as an event.
\<close>

type_synonym vector_store = "nat \<Rightarrow> pystr \<Rightarrow> doc list"

type_synonym language_model = "pystr \<Rightarrow> pystr"

datatype event = Retrieve pystr | Generate pystr

text \<open>
  The second loop of \<^verbatim>\<open>retrieve_icd_context\<close>, entered when nothing was retrieved: the first
  entry whose informal term is in \<^verbatim>\<open>query.lower()\<close> is looked up, then \<^verbatim>\<open>break\<close>.
\<close>

fun synonym_only_attempt ::
  "(pystr \<Rightarrow> doc list) \<Rightarrow> (pystr \<times> pystr) list \<Rightarrow> pystr \<Rightarrow> doc list \<times> event list" where
  "synonym_only_attempt retriever [] lowered = ([], [])"
| "synonym_only_attempt retriever ((layman, medical) # rest) lowered =
     (if sublist layman lowered
      then (retriever medical, [Retrieve medical])
      else synonym_only_attempt retriever rest lowered)"

definition retrieve_icd_context ::
  "vector_store \<Rightarrow> pystr \<Rightarrow> nat \<Rightarrow> (pystr \<times> doc list) \<times> event list" where
  "retrieve_icd_context vectordb query top_k =
     (let normalized_query = expand_query query;
          retriever = vectordb top_k;
          docs = retriever normalized_query;
          (docs, events) =
            (if docs = []
             then (let (docs', more) = synonym_only_attempt retriever SYNONYM_MAP (py_lower query)
                   in (docs', Retrieve normalized_query # more))
             else (docs, [Retrieve normalized_query]))
      in if docs = [] then (([], []), events)
         else ((py_strip (py_join [10, 10] (map page_content docs)), docs), events))"

subsection \<open>Answering\<close>

definition NOT_FOUND_ANSWER :: pystr where
  "NOT_FOUND_ANSWER =
     str '' I couldn'' @ [8217] @
     str ''t find an exact ICD-11 match for your query. Try rephrasing or be more specific.''"

definition REFERENCES_HEADER :: pystr where
  "REFERENCES_HEADER = [10, 10, 128218] @ str '' **ICD-11 References:** ''"

definition NO_MATCH_MARKER :: pystr where
  "NO_MATCH_MARKER = [10, 10, 9888, 65039] @ str '' *No exact ICD-11 match found.*''"

text \<open>The f-string of \<^verbatim>\<open>medical_chat\<close>; 10 is the newline, 34 the double quote.\<close>

definition prompt_of :: "pystr \<Rightarrow> pystr \<Rightarrow> pystr" where
  "prompt_of context user_message =
     [10] @ str ''You are a WHO ICD-11 medical assistant.'' @
     [10] @ str ''- Use ONLY the provided ICD-11 context for accuracy.'' @
     [10] @ str ''- If the user'' @ [8217] @
            str ''s query is slightly different but semantically related, explain the closest ICD-11 match.'' @
     [10] @ str ''- If there is *no relevant* ICD-11 entry, say:'' @
     [10, 34] @ str ''I'' @ [8217] @
            str ''m not sure, this information is not found in ICD-11.'' @ [34] @
     [10, 10] @ str ''ICD-11 Context:'' @
     [10] @ context @
     [10, 10] @ str ''User Question: '' @ user_message @
     [10, 10] @ str ''Answer in a clear, medical style:'' @ [10]"

text \<open>One citation: \<^verbatim>\<open>[icd_code](browser_url)\<close>, with the defaults of the two lookups.\<close>

definition source_link :: "doc \<Rightarrow> pystr" where
  "source_link d =
     str ''['' @ dict_get (metadata d) (str ''icd_code'') (str ''unknown'') @
     str ''](''  @ dict_get (metadata d) (str ''browser_url'') (str ''#'') @ str '')''"

text \<open>
  Lines 59 to 90 of \<^verbatim>\<open>medical_chat\<close>: the answer text, with the calls made to the two
  services on the way.
\<close>

definition build_answer :: "vector_store \<Rightarrow> language_model \<Rightarrow> pystr \<Rightarrow> pystr \<times> event list" where
  "build_answer vectordb llm user_message =
     (let ((context, docs), retrievals) = retrieve_icd_context vectordb user_message 4;
          (answer, generations) =
            (if context = [] \<or> length context < 50
             then (NOT_FOUND_ANSWER, [])
             else (let prompt = prompt_of context user_message
                   in (py_strip (llm prompt), [Generate prompt])));
          answer =
            (if docs \<noteq> []
             then answer @ REFERENCES_HEADER @ py_join (str '', '') (map source_link docs)
             else answer @ NO_MATCH_MARKER)
      in (answer, retrievals @ generations))"

record turn =
  role :: pystr
  content :: pystr

text \<open>
  \<^verbatim>\<open>medical_chat\<close> gets the history as a list or as \<^verbatim>\<open>None\<close> (\<^verbatim>\<open>history or []\<close>), appends
  the two new turns and returns the history twice.
\<close>

definition medical_chat ::
  "vector_store \<Rightarrow> language_model \<Rightarrow> pystr \<Rightarrow> turn list option \<Rightarrow>
     (turn list \<times> turn list) \<times> event list" where
  "medical_chat vectordb llm user_message history =
     (let history = (case history of None \<Rightarrow> [] | Some h \<Rightarrow> h);
          (answer, events) = build_answer vectordb llm user_message;
          history = history @ [\<lparr>role = str ''user'', content = user_message\<rparr>,
                               \<lparr>role = str ''assistant'', content = answer\<rparr>]
      in ((history, history), events))"

section \<open>The index builder (preprocess.py)\<close>

datatype error = LoadError | IndexError | ValueError | EmbeddingError

subsection \<open>Pass 1: records to text files\<close>

text \<open>
  An input record, as the fields the builder reads from the parsed JSON object, with the
  types they have in the ICD-11 files: strings. A field is \<open>None\<close> where the lookup falls
  back to its default: \<open>entry_title\<close> is \<^verbatim>\<open>title.@value\<close>, \<open>entry_definition\<close> is
  \<^verbatim>\<open>definition.@value\<close>, and each element of \<open>entry_synonym\<close> is the \<^verbatim>\<open>label.@value\<close> of one
  synonym. A file is its name and what \<^verbatim>\<open>load_json\<close> does on it: it returns the record, or it
  raises, which the \<^verbatim>\<open>except\<close> branch of the loop catches.
\<close>

record entry =
  entry_id :: "pystr option"
  entry_title :: "pystr option"
  entry_synonym :: "pystr option list"
  entry_definition :: "pystr option"
  entry_browserUrl :: "pystr option"

record json_file =
  stem :: pystr
  name :: pystr
  load_json :: "error + entry"

definition get_or :: "'a option \<Rightarrow> 'a \<Rightarrow> 'a" where
  "get_or v dflt = (case v of None \<Rightarrow> dflt | Some x \<Rightarrow> x)"

text \<open>\<^verbatim>\<open>s.rstrip("/")\<close> and \<^verbatim>\<open>s.split("/")\<close>, for a separator of one character.\<close>

definition py_rstrip_char :: "nat \<Rightarrow> pystr \<Rightarrow> pystr" where
  "py_rstrip_char c s = rev (dropWhile (\<lambda>x. x = c) (rev s))"

fun py_split_char :: "nat \<Rightarrow> pystr \<Rightarrow> pystr list" where
  "py_split_char c [] = [[]]"
| "py_split_char c (x # xs) =
     (if x = c then [] # py_split_char c xs
      else (case py_split_char c xs of
              [] \<Rightarrow> [[x]]
            | w # ws \<Rightarrow> (x # w) # ws))"

text \<open>The index \<^verbatim>\<open>[-1]\<close> raises on an empty list.\<close>

definition py_last :: "'a list \<Rightarrow> error + 'a" where
  "py_last xs = (case rev xs of [] \<Rightarrow> Inl IndexError | x # _ \<Rightarrow> Inr x)"

definition extract_code_from_id :: "pystr \<Rightarrow> error + pystr" where
  "extract_code_from_id raw_id = py_last (py_split_char 47 (py_rstrip_char 47 raw_id))"

definition entry_to_text :: "entry \<Rightarrow> pystr \<Rightarrow> pystr" where
  "entry_to_text e code =
     (let title = get_or (entry_title e) (str ''Untitled ICD Entry '' @ code);
          synonyms = map (\<lambda>s. get_or s []) (entry_synonym e);
          definition = get_or (entry_definition e) [];
          url = get_or (entry_browserUrl e) [];
          parts = [str ''Title: '' @ title]
            @ (if synonyms \<noteq> [] then [str ''Synonyms: '' @ py_join (str ''; '') synonyms] else [])
            @ (if definition \<noteq> [] then [str ''Definition: '' @ definition] else [])
            @ (if url \<noteq> [] then [str ''SourceURL: '' @ url] else [])
            @ [str ''ICDCode: '' @ code]
      in py_join [10] parts)"

text \<open>
  The characters kept by \<^verbatim>\<open>re.sub(r"[^\w\- ]", "", s)\<close>. The class \<^verbatim>\<open>\w\<close> is modelled on
  the ASCII range: letters, digits and the underscore.
\<close>

definition is_word :: "nat \<Rightarrow> bool" where
  "is_word c \<longleftrightarrow> (48 \<le> c \<and> c \<le> 57) \<or> (65 \<le> c \<and> c \<le> 90) \<or> c = 95 \<or> (97 \<le> c \<and> c \<le> 122)"

definition sanitize :: "pystr \<Rightarrow> pystr" where
  "sanitize s = filter (\<lambda>c. is_word c \<or> c = 45 \<or> c = 32) s"

datatype report =
    Skip_file pystr error
  | Processed nat
  | Skipped_missing nat
  | Saved nat

text \<open>
  The variables of pass 1, the files of \<^verbatim>\<open>txt_dir\<close> (name to content) and the lines printed.
\<close>

record ingest_state =
  code2url :: "pystr \<rightharpoonup> pystr"
  cleaned_files :: "pystr list"
  skipped_missing_defs :: nat
  total_json :: nat
  txt_dir :: "pystr \<rightharpoonup> pystr"
  printed :: "report list"

text \<open>
  One iteration of the loop over \<^verbatim>\<open>json_dir.glob("*.json")\<close>. Writing the text file is
  taken to succeed.
\<close>

definition ingest_file :: "bool \<Rightarrow> json_file \<Rightarrow> ingest_state \<Rightarrow> ingest_state" where
  "ingest_file skip_missing_defs jf st0 =
     (let st = st0\<lparr>total_json := total_json st0 + 1\<rparr>
      in case load_json jf of
           Inl e \<Rightarrow> st\<lparr>printed := printed st @ [Skip_file (name jf) e]\<rparr>
         | Inr data \<Rightarrow>
             (case extract_code_from_id (get_or (entry_id data) (stem jf)) of
                Inl e \<Rightarrow> st\<lparr>printed := printed st @ [Skip_file (name jf) e]\<rparr>
              | Inr code \<Rightarrow>
                  (let browser_url = get_or (entry_browserUrl data) [];
                       st = st\<lparr>code2url := (code2url st)(code \<mapsto> browser_url)\<rparr>;
                       definition = get_or (entry_definition data) []
                   in if skip_missing_defs \<and> definition = []
                      then st\<lparr>skipped_missing_defs := skipped_missing_defs st + 1\<rparr>
                      else (let txt_block = entry_to_text data code;
                                fname = take 80 (sanitize (code @ str ''_'' @ get_or (entry_title data) []));
                                out_fp = fname @ str ''.txt''
                            in st\<lparr>txt_dir := (txt_dir st)(out_fp \<mapsto> txt_block),
                                  cleaned_files := cleaned_files st @ [out_fp]\<rparr>))))"

fun ingest_files :: "bool \<Rightarrow> json_file list \<Rightarrow> ingest_state \<Rightarrow> ingest_state" where
  "ingest_files skip_missing_defs [] st = st"
| "ingest_files skip_missing_defs (jf # jfs) st =
     ingest_files skip_missing_defs jfs (ingest_file skip_missing_defs jf st)"

text \<open>Pass 1 with its summary; \<open>existing\<close> is what \<^verbatim>\<open>txt_dir\<close> holds before the run.\<close>

definition pass1 :: "bool \<Rightarrow> (pystr \<rightharpoonup> pystr) \<Rightarrow> json_file list \<Rightarrow> ingest_state" where
  "pass1 skip_missing_defs existing files =
     (let st = ingest_files skip_missing_defs files
                 \<lparr>code2url = Map.empty, cleaned_files = [], skipped_missing_defs = 0,
                  total_json = 0, txt_dir = existing, printed = []\<rparr>
      in st\<lparr>printed := printed st
               @ [Processed (total_json st)]
               @ (if skip_missing_defs then [Skipped_missing (skipped_missing_defs st)] else [])
               @ [Saved (length (cleaned_files st))]\<rparr>)"

text \<open>A record is missing its definition when the lookup yields the empty default or an empty string.\<close>

definition missing_definition :: "json_file \<Rightarrow> bool" where
  "missing_definition jf =
     (case load_json jf of
        Inl e \<Rightarrow> False
      | Inr data \<Rightarrow> entry_definition data = None \<or> entry_definition data = Some [])"

subsection \<open>Pass 3: embedding in batches\<close>

text \<open>
  Modelled from the spec: the embedding model, a library the builder calls. It gives one
  vector for a text; its \<open>k\<close>-th call succeeds when \<open>available k\<close> holds and raises otherwise.
\<close>

record ('d, 'v) embedder =
  embed_text :: "'d \<Rightarrow> 'v"
  available :: "nat \<Rightarrow> bool"

definition embed_documents :: "('d, 'v) embedder \<Rightarrow> nat \<Rightarrow> 'd list \<Rightarrow> error + ('v \<times> 'd) list" where
  "embed_documents emb k batch =
     (if available emb k then Inr (map (\<lambda>d. (embed_text emb d, d)) batch) else Inl EmbeddingError)"

text \<open>
  Modelled from the spec: the vector store, a library the builder calls (\<^verbatim>\<open>Chroma\<close>), as a
  list of entries, each a vector with its chunk. \<open>in_memory\<close> is the variable \<^verbatim>\<open>vectordb\<close>
  (\<open>None\<close> before the first batch), the collection held in memory; \<open>disk\<close> is the content of
  \<^verbatim>\<open>index_dir\<close>; \<open>persists\<close> counts the calls of \<^verbatim>\<open>persist()\<close>.
  \<^verbatim>\<open>Chroma.from_documents\<close> opens the collection of the directory and adds the embedded
  batch, \<^verbatim>\<open>add_documents\<close> adds to the open collection, \<^verbatim>\<open>persist\<close> writes the collection to
  the directory. A batch is embedded as a whole before any of it is added.
\<close>

record ('d, 'v) index_state =
  in_memory :: "('v \<times> 'd) list option"
  disk :: "('v \<times> 'd) list"
  persists :: nat

text \<open>The \<^verbatim>\<open>if vectordb is None\<close> statement of the loop body, on the \<open>k\<close>-th call of the model.\<close>

definition add_batch ::
  "('d, 'v) embedder \<Rightarrow> nat \<Rightarrow> 'd list \<Rightarrow> ('d, 'v) index_state \<Rightarrow> error + ('d, 'v) index_state" where
  "add_batch emb k batch_docs st =
     (case embed_documents emb k batch_docs of
        Inl e \<Rightarrow> Inl e
      | Inr vectors \<Rightarrow>
          Inr (st\<lparr>in_memory :=
                    Some (case in_memory st of
                            None \<Rightarrow> disk st @ vectors
                          | Some db \<Rightarrow> db @ vectors)\<rparr>))"

text \<open>\<^verbatim>\<open>vectordb.persist()\<close>; the variable is never \<open>None\<close> where it is called.\<close>

definition persist :: "('d, 'v) index_state \<Rightarrow> ('d, 'v) index_state" where
  "persist st =
     (case in_memory st of
        None \<Rightarrow> st
      | Some collection \<Rightarrow> st\<lparr>disk := collection, persists := persists st + 1\<rparr>)"

text \<open>The slices \<^verbatim>\<open>docs[i:i + batch_size]\<close> for \<^verbatim>\<open>i in range(0, len(docs), batch_size)\<close>.\<close>

function batches :: "nat \<Rightarrow> 'a list \<Rightarrow> 'a list list" where
  "batches n xs = (if n = 0 \<or> xs = [] then [] else take n xs # batches n (drop n xs))"
  by pat_completeness auto
termination
  by (relation "measure (\<lambda>(n, xs). length xs)") auto

text \<open>The loop: an exception of the embedding leaves the function, with the directory as it is.\<close>

fun embed_batches ::
  "('d, 'v) embedder \<Rightarrow> nat \<Rightarrow> 'd list list \<Rightarrow> ('d, 'v) index_state \<Rightarrow>
     error option \<times> ('d, 'v) index_state" where
  "embed_batches emb k [] st = (None, st)"
| "embed_batches emb k (b # bs) st =
     (case add_batch emb k b st of
        Inl e \<Rightarrow> (Some e, st)
      | Inr st' \<Rightarrow> embed_batches emb (Suc k) bs (persist st'))"

text \<open>
  Pass 3 of \<^verbatim>\<open>build_index\<close>. \<^verbatim>\<open>range\<close> raises for a step of zero and is empty for a negative
  one.
\<close>

definition pass3 ::
  "('d, 'v) embedder \<Rightarrow> int \<Rightarrow> 'd list \<Rightarrow> ('v \<times> 'd) list \<Rightarrow> error option \<times> ('d, 'v) index_state" where
  "pass3 emb batch_size docs existing =
     (let st = \<lparr>in_memory = None, disk = existing, persists = 0\<rparr>
      in if batch_size = 0 then (Some ValueError, st)
         else if batch_size < 0 then (None, st)
         else embed_batches emb 0 (batches (nat batch_size) docs) st)"

declare batches.simps [simp del]

section \<open>Example inputs\<close>

text \<open>A store with one short chunk, found under the formal term only.\<close>

definition influenza_chunk :: doc where
  "influenza_chunk =
     \<lparr>page_content = str ''Title: Influenza'',
      metadata = [(str ''icd_code'', str ''1E32''),
                  (str ''browser_url'', str ''https://icd.who.int/browse/1E32'')]\<rparr>"

definition example_store :: vector_store where
  "example_store top_k query = (if query = str ''influenza'' then [influenza_chunk] else [])"

text \<open>A store that holds this chunk only and returns it for every query.\<close>

definition single_chunk_store :: vector_store where
  "single_chunk_store top_k query = [influenza_chunk]"

text \<open>A store that returns two chunks of the same record.\<close>

definition cholera_chunks :: "doc list" where
  "cholera_chunks =
     [\<lparr>page_content = str ''Title: Cholera Definition: an acute diarrhoeal infection caused by'',
       metadata = [(str ''icd_code'', str ''1A00''),
                   (str ''browser_url'', str ''https://icd.who.int/browse/1A00'')]\<rparr>,
      \<lparr>page_content = str ''ingestion of contaminated food or water. ICDCode: 1A00'',
       metadata = [(str ''icd_code'', str ''1A00''),
                   (str ''browser_url'', str ''https://icd.who.int/browse/1A00'')]\<rparr>]"

definition cholera_store :: vector_store where
  "cholera_store top_k query = cholera_chunks"

definition example_model :: language_model where
  "example_model prompt = str '' Cholera is an acute intestinal infection. ''"

text \<open>Two records, the first without a definition.\<close>

definition record_without_definition :: json_file where
  "record_without_definition =
     \<lparr>stem = str ''a1'', name = str ''a1.json'',
      load_json = Inr \<lparr>entry_id = Some (str ''http://id.who.int/icd/entity/1A00/''),
                        entry_title = Some (str ''Cholera''), entry_synonym = [],
                        entry_definition = None, entry_browserUrl = None\<rparr>\<rparr>"

definition record_with_definition :: json_file where
  "record_with_definition =
     \<lparr>stem = str ''a2'', name = str ''a2.json'',
      load_json = Inr \<lparr>entry_id = Some (str ''http://id.who.int/icd/entity/1E32''),
                        entry_title = Some (str ''Influenza''), entry_synonym = [Some (str ''flu'')],
                        entry_definition = Some (str ''An acute viral infection.''),
                        entry_browserUrl = None\<rparr>\<rparr>"

definition empty_state :: ingest_state where
  "empty_state =
     \<lparr>code2url = Map.empty, cleaned_files = [], skipped_missing_defs = 0,
      total_json = 0, txt_dir = Map.empty, printed = []\<rparr>"

text \<open>An embedding model whose second call fails; a vector is the length of the text.\<close>

definition flaky_embedder :: "(pystr, nat) embedder" where
  "flaky_embedder = \<lparr>embed_text = length, available = (\<lambda>k. k < 1)\<rparr>"

definition five_chunks :: "pystr list" where
  "five_chunks = [str ''a'', str ''bb'', str ''ccc'', str ''dddd'', str ''eeeee'']"

section \<open>Strings\<close>

lemmas string_defs =
  str_def py_lower_def lower_cp_def py_strip_def py_lstrip_def py_rstrip_def is_space_def










section \<open>Query expansion\<close>













section \<open>Retrieval and answering\<close>

lemma synonym_only_attempt_matches:
  "synonym_only_attempt retriever tbl lowered =
     (case filter (\<lambda>(layman, medical). sublist layman lowered) tbl of
        [] \<Rightarrow> ([], [])
      | (layman, medical) # _ \<Rightarrow> (retriever medical, [Retrieve medical]))"
  by (induction tbl) auto

lemma retrieve_no_generate: "Generate p \<notin> set (snd (retrieve_icd_context store q k))"
  by (auto simp: retrieve_icd_context_def Let_def synonym_only_attempt_matches
      split: list.splits prod.splits if_splits)

lemma retrieve_no_docs: "retrieve_icd_context store q k = ((c, []), ev) \<Longrightarrow> c = []"
  by (auto simp: retrieve_icd_context_def Let_def split: prod.splits if_splits)

lemma expand_FLU: "expand_query (str ''FLU'') = str ''flu influenza''"
  by (simp add: expand_query_def SYNONYM_MAP_def string_defs sublist_code)

lemma expand_fever: "expand_query (str ''fever'') = str ''fever''"
  by (simp add: expand_query_def SYNONYM_MAP_def string_defs sublist_code)

lemma expand_cholera: "expand_query (str ''cholera'') = str ''cholera''"
  by (simp add: expand_query_def SYNONYM_MAP_def string_defs sublist_code)

lemma retrieve_single:
  "retrieve_icd_context single_chunk_store (str ''FLU'') 4 =
     ((str ''Title: Influenza'', [influenza_chunk]), [Retrieve (str ''flu influenza'')])"
  unfolding retrieve_icd_context_def expand_FLU
  by (simp add: single_chunk_store_def influenza_chunk_def string_defs)

lemma retrieve_fever:
  "retrieve_icd_context example_store (str ''fever'') 4 = (([], []), [Retrieve (str ''fever'')])"
  unfolding retrieve_icd_context_def expand_fever
  by (simp add: example_store_def SYNONYM_MAP_def string_defs sublist_code)



text \<open>
  Claim C1, as stated, fails: one short chunk is retrieved, the context is shorter than 50
  characters, and the answer is the fixed message followed by the citation of that chunk; no
  "no exact match" marker is appended.
\<close>

theorem short_context_is_cited:
  "length (fst (fst (retrieve_icd_context single_chunk_store (str ''FLU'') 4))) < 50
   \<and> fst (build_answer single_chunk_store example_model (str ''FLU'')) =
       NOT_FOUND_ANSWER @ REFERENCES_HEADER @ str ''[1E32](https://icd.who.int/browse/1E32)''
   \<and> fst (build_answer single_chunk_store example_model (str ''FLU'')) \<noteq> NOT_FOUND_ANSWER
   \<and> fst (build_answer single_chunk_store example_model (str ''FLU'')) \<noteq>
       NOT_FOUND_ANSWER @ NO_MATCH_MARKER"
proof -
  have a: "fst (build_answer single_chunk_store example_model (str ''FLU'')) =
      NOT_FOUND_ANSWER @ REFERENCES_HEADER @ str ''[1E32](https://icd.who.int/browse/1E32)''"
    unfolding build_answer_def retrieve_single
    by (simp add: source_link_def dict_get_def influenza_chunk_def str_def)
  have b: "length (fst (fst (retrieve_icd_context single_chunk_store (str ''FLU'') 4))) < 50"
    unfolding retrieve_single by (simp add: str_def)
  have c: "REFERENCES_HEADER @ str ''[1E32](https://icd.who.int/browse/1E32)'' \<noteq> []"
    by (simp add: REFERENCES_HEADER_def)
  have d: "REFERENCES_HEADER @ str ''[1E32](https://icd.who.int/browse/1E32)'' \<noteq> NO_MATCH_MARKER"
    by (simp add: REFERENCES_HEADER_def NO_MATCH_MARKER_def)
  from a b c d show ?thesis by simp
qed

text \<open>
  Claim C1 (amended). If no chunk was retrieved or the context is shorter than 50 characters,
  the answer starts with the fixed message and the language model is not called: the calls
  made are those of the retrieval, none of them a generation. With no chunk retrieved the
  "no exact match" marker follows the message; with chunks retrieved their citations follow.
\<close>

theorem fallback_answer:
  assumes "retrieve_icd_context store q 4 = ((context, docs), retrievals)"
    and "docs = [] \<or> length context < 50"
  shows "build_answer store llm q =
           (NOT_FOUND_ANSWER @
              (if docs = [] then NO_MATCH_MARKER
               else REFERENCES_HEADER @ py_join (str '', '') (map source_link docs)),
            retrievals)
       \<and> (\<forall>p. Generate p \<notin> set retrievals)"
proof -
  have c: "context = [] \<or> length context < 50"
    using assms retrieve_no_docs by blast
  have "Generate p \<notin> set retrievals" for p
    using retrieve_no_generate [of p store q 4] assms(1) by simp
  moreover have "build_answer store llm q =
           (NOT_FOUND_ANSWER @
              (if docs = [] then NO_MATCH_MARKER
               else REFERENCES_HEADER @ py_join (str '', '') (map source_link docs)),
            retrievals)"
    using c assms(1) by (auto simp: build_answer_def)
  ultimately show ?thesis by blast
qed

text \<open>The theorem at the query \<^verbatim>\<open>fever\<close>, for which the example store finds nothing.\<close>

theorem fallback_answer_witness:
  "retrieve_icd_context example_store (str ''fever'') 4 = (([], []), [Retrieve (str ''fever'')])
   \<and> build_answer example_store example_model (str ''fever'') =
       (NOT_FOUND_ANSWER @ NO_MATCH_MARKER, [Retrieve (str ''fever'')])"
proof -
  have h: "([] :: doc list) = [] \<or> length ([] :: pystr) < 50" by simp
  from fallback_answer [OF retrieve_fever h, of example_model] retrieve_fever
  show ?thesis by simp
qed

text \<open>
  Claim C2 at two retrieved chunks of one record: the footer cites the record twice. The
  context is long enough for the language model to be called.
\<close>

theorem citations_not_deduplicated:
  "map (\<lambda>d. dict_get (metadata d) (str ''icd_code'') (str ''unknown'')) cholera_chunks =
     [str ''1A00'', str ''1A00'']
   \<and> fst (build_answer cholera_store example_model (str ''cholera'')) =
       str ''Cholera is an acute intestinal infection.'' @ REFERENCES_HEADER @
       str ''[1A00](https://icd.who.int/browse/1A00), [1A00](https://icd.who.int/browse/1A00)''"
proof -
  have r: "retrieve_icd_context cholera_store (str ''cholera'') 4 =
      ((str ''Title: Cholera Definition: an acute diarrhoeal infection caused by'' @ [10, 10] @
        str ''ingestion of contaminated food or water. ICDCode: 1A00'', cholera_chunks),
       [Retrieve (str ''cholera'')])"
    unfolding retrieve_icd_context_def expand_cholera
    by (simp add: cholera_store_def cholera_chunks_def string_defs)
  have a: "py_strip (example_model p) = str ''Cholera is an acute intestinal infection.''" for p
    by (simp add: example_model_def string_defs)
  have s: "map source_link cholera_chunks =
      [str ''[1A00](https://icd.who.int/browse/1A00)'', str ''[1A00](https://icd.who.int/browse/1A00)'']"
    by (simp add: cholera_chunks_def source_link_def dict_get_def str_def)
  have n: "cholera_chunks \<noteq> []" by (simp add: cholera_chunks_def)
  have "fst (build_answer cholera_store example_model (str ''cholera'')) =
       str ''Cholera is an acute intestinal infection.'' @ REFERENCES_HEADER @
       str ''[1A00](https://icd.who.int/browse/1A00), [1A00](https://icd.who.int/browse/1A00)''"
    unfolding build_answer_def r using n
    by (simp add: a s) (simp add: str_def)
  moreover have "map (\<lambda>d. dict_get (metadata d) (str ''icd_code'') (str ''unknown'')) cholera_chunks =
     [str ''1A00'', str ''1A00'']"
    by (simp add: cholera_chunks_def dict_get_def str_def)
  ultimately show ?thesis by simp
qed

text \<open>
  Claim C9. The chat operation returns the prior history, unchanged and in order, followed by
  exactly two new entries: the user turn with the query, then the assistant turn with the
  answer. A history of \<^verbatim>\<open>None\<close> counts as the empty one.
\<close>

theorem chat_appends_two_turns:
  "fst (medical_chat store llm q history) =
     (get_or history [] @
        [\<lparr>role = str ''user'', content = q\<rparr>,
         \<lparr>role = str ''assistant'', content = fst (build_answer store llm q)\<rparr>],
      get_or history [] @
        [\<lparr>role = str ''user'', content = q\<rparr>,
         \<lparr>role = str ''assistant'', content = fst (build_answer store llm q)\<rparr>])"
  by (simp add: medical_chat_def get_or_def Let_def split: prod.splits option.splits)

section \<open>Pass 1: skipped records\<close>

lemma py_split_char_nonempty: "py_split_char c s \<noteq> []"
  by (induction s) (auto split: list.splits)

text \<open>The code of a record is always found: \<^verbatim>\<open>split\<close> never returns an empty list.\<close>

lemma extract_code_from_id_returns: "\<exists>code. extract_code_from_id raw_id = Inr code"
proof -
  obtain w ws where "rev (py_split_char 47 (py_rstrip_char 47 raw_id)) = w # ws"
    using py_split_char_nonempty [of 47 "py_rstrip_char 47 raw_id"]
    by (cases "rev (py_split_char 47 (py_rstrip_char 47 raw_id))") auto
  then show ?thesis by (simp add: extract_code_from_id_def py_last_def)
qed

lemma ingest_file_missing:
  assumes "missing_definition jf"
  shows "txt_dir (ingest_file True jf st) = txt_dir st"
    and "cleaned_files (ingest_file True jf st) = cleaned_files st"
    and "skipped_missing_defs (ingest_file True jf st) = skipped_missing_defs st + 1"
proof -
  obtain data where d: "load_json jf = Inr data"
    and m: "entry_definition data = None \<or> entry_definition data = Some []"
    using assms by (auto simp: missing_definition_def split: sum.splits)
  obtain code where c: "extract_code_from_id (get_or (entry_id data) (stem jf)) = Inr code"
    using extract_code_from_id_returns [of "get_or (entry_id data) (stem jf)"] by auto
  have g: "get_or (entry_definition data) [] = []"
    using m by (auto simp: get_or_def)
  show "txt_dir (ingest_file True jf st) = txt_dir st"
    by (simp add: ingest_file_def d c g Let_def)
  show "cleaned_files (ingest_file True jf st) = cleaned_files st"
    by (simp add: ingest_file_def d c g Let_def)
  show "skipped_missing_defs (ingest_file True jf st) = skipped_missing_defs st + 1"
    by (simp add: ingest_file_def d c g Let_def)
qed

lemma ingest_file_present:
  assumes "\<not> missing_definition jf"
  shows "skipped_missing_defs (ingest_file True jf st) = skipped_missing_defs st"
proof (cases "load_json jf")
  case (Inl e)
  then show ?thesis by (simp add: ingest_file_def Let_def)
next
  case (Inr data)
  then have "get_or (entry_definition data) [] \<noteq> []"
    using assms by (auto simp: missing_definition_def get_or_def split: option.splits)
  then show ?thesis
    using Inr by (simp add: ingest_file_def Let_def split: sum.splits)
qed

text \<open>What one iteration writes depends on the files written so far only.\<close>

lemma ingest_file_cong:
  assumes "cleaned_files st = cleaned_files st'" and "txt_dir st = txt_dir st'"
  shows "cleaned_files (ingest_file b jf st) = cleaned_files (ingest_file b jf st')
       \<and> txt_dir (ingest_file b jf st) = txt_dir (ingest_file b jf st')"
  using assms by (auto simp: ingest_file_def Let_def split: sum.splits)

lemma ingest_files_cong:
  assumes "cleaned_files st = cleaned_files st'" and "txt_dir st = txt_dir st'"
  shows "cleaned_files (ingest_files b fs st) = cleaned_files (ingest_files b fs st')
       \<and> txt_dir (ingest_files b fs st) = txt_dir (ingest_files b fs st')"
  using assms
proof (induction fs arbitrary: st st')
  case Nil
  then show ?case by simp
next
  case (Cons jf fs)
  have "cleaned_files (ingest_file b jf st) = cleaned_files (ingest_file b jf st')"
    and "txt_dir (ingest_file b jf st) = txt_dir (ingest_file b jf st')"
    using ingest_file_cong [OF Cons.prems, of b jf] by simp_all
  then show ?case
    using Cons.IH [of "ingest_file b jf st" "ingest_file b jf st'"] by simp
qed

lemma ingest_files_skipped:
  "skipped_missing_defs (ingest_files True fs st) =
     skipped_missing_defs st + length (filter missing_definition fs)"
proof (induction fs arbitrary: st)
  case Nil
  show ?case by simp
next
  case (Cons jf fs)
  show ?case
    by (cases "missing_definition jf")
       (simp_all add: Cons.IH ingest_file_missing(3) ingest_file_present)
qed

lemma ingest_files_without_missing:
  "cleaned_files (ingest_files True fs st) =
     cleaned_files (ingest_files True (filter (\<lambda>jf. \<not> missing_definition jf) fs) st)
   \<and> txt_dir (ingest_files True fs st) =
     txt_dir (ingest_files True (filter (\<lambda>jf. \<not> missing_definition jf) fs) st)"
proof (induction fs arbitrary: st)
  case Nil
  show ?case by simp
next
  case (Cons jf fs)
  show ?case
  proof (cases "missing_definition jf")
    case True
    have same: "cleaned_files (ingest_file True jf st) = cleaned_files st"
      "txt_dir (ingest_file True jf st) = txt_dir st"
      by (simp_all add: ingest_file_missing [OF True])
    from ingest_files_cong [OF same, of True "filter (\<lambda>jf. \<not> missing_definition jf) fs"]
      Cons.IH [of "ingest_file True jf st"] True
    show ?thesis by simp
  next
    case False
    with Cons.IH [of "ingest_file True jf st"] show ?thesis by simp
  qed
qed

text \<open>
  Claim C7. With skipping enabled, a record without a definition writes no text file and adds
  nothing to the list of written files, and it adds one to the skipped counter. Over a whole
  run the summary reports the number of such records as skipped, and the files written are
  those of the run without them.
\<close>

theorem skip_missing_definitions:
  "(missing_definition jf \<longrightarrow>
      txt_dir (ingest_file True jf st) = txt_dir st
    \<and> cleaned_files (ingest_file True jf st) = cleaned_files st
    \<and> skipped_missing_defs (ingest_file True jf st) = skipped_missing_defs st + 1)
   \<and> Skipped_missing (length (filter missing_definition files))
        \<in> set (printed (pass1 True existing files))
   \<and> cleaned_files (pass1 True existing files) =
        cleaned_files (pass1 True existing (filter (\<lambda>jf. \<not> missing_definition jf) files))
   \<and> txt_dir (pass1 True existing files) =
        txt_dir (pass1 True existing (filter (\<lambda>jf. \<not> missing_definition jf) files))"
proof -
  let ?st0 = "\<lparr>code2url = Map.empty, cleaned_files = [], skipped_missing_defs = 0,
                total_json = 0, txt_dir = existing, printed = []\<rparr>"
  have 1: "missing_definition jf \<longrightarrow>
      txt_dir (ingest_file True jf st) = txt_dir st
    \<and> cleaned_files (ingest_file True jf st) = cleaned_files st
    \<and> skipped_missing_defs (ingest_file True jf st) = skipped_missing_defs st + 1"
    using ingest_file_missing [of jf st] by simp
  have "skipped_missing_defs (ingest_files True files ?st0) =
      length (filter missing_definition files)"
    using ingest_files_skipped [of files ?st0] by simp
  then have 2: "Skipped_missing (length (filter missing_definition files))
        \<in> set (printed (pass1 True existing files))"
    by (simp add: pass1_def Let_def)
  have 3: "cleaned_files (pass1 True existing files) =
        cleaned_files (pass1 True existing (filter (\<lambda>jf. \<not> missing_definition jf) files))"
    and 4: "txt_dir (pass1 True existing files) =
        txt_dir (pass1 True existing (filter (\<lambda>jf. \<not> missing_definition jf) files))"
    using ingest_files_without_missing [of files ?st0] by (simp_all add: pass1_def Let_def)
  from 1 2 3 4 show ?thesis by blast
qed

text \<open>The theorem at a run over two records, of which the first has no definition.\<close>

theorem skip_missing_definitions_witness:
  "missing_definition record_without_definition
   \<and> txt_dir (ingest_file True record_without_definition empty_state) = Map.empty
   \<and> cleaned_files (ingest_file True record_without_definition empty_state) = []
   \<and> skipped_missing_defs (ingest_file True record_without_definition empty_state) = 1
   \<and> Skipped_missing 1 \<in>
       set (printed (pass1 True Map.empty [record_without_definition, record_with_definition]))
   \<and> cleaned_files (pass1 True Map.empty [record_without_definition, record_with_definition]) =
       cleaned_files (pass1 True Map.empty [record_with_definition])"
proof -
  have m: "missing_definition record_without_definition"
    by (simp add: missing_definition_def record_without_definition_def)
  have p: "\<not> missing_definition record_with_definition"
    by (simp add: missing_definition_def record_with_definition_def str_def)
  from skip_missing_definitions
    [of record_without_definition empty_state
        "[record_without_definition, record_with_definition]" Map.empty]
    m p
  show ?thesis by (simp add: empty_state_def)
qed

section \<open>Pass 3: batches\<close>

lemma concat_batches: "0 < n \<Longrightarrow> concat (batches n xs) = xs"
proof (induction n xs rule: batches.induct)
  case (1 n xs)
  show ?case
  proof (cases "xs = []")
    case True
    then show ?thesis by (simp add: batches.simps)
  next
    case False
    with 1 have "concat (batches n (drop n xs)) = drop n xs" by simp
    with False 1(2) show ?thesis by (simp add: batches.simps [of n xs])
  qed
qed

lemma batches_sizes: "b \<in> set (batches n xs) \<Longrightarrow> b \<noteq> [] \<and> length b \<le> n"
proof (induction n xs rule: batches.induct)
  case (1 n xs)
  show ?case
  proof (cases "n = 0 \<or> xs = []")
    case True
    with 1(2) show ?thesis by (simp add: batches.simps [of n xs])
  next
    case False
    with 1(2) have "b = take n xs \<or> b \<in> set (batches n (drop n xs))"
      by (simp add: batches.simps [of n xs])
    then show ?thesis
    proof
      assume "b = take n xs"
      with False show ?thesis by auto
    next
      assume "b \<in> set (batches n (drop n xs))"
      with 1(1) False show ?thesis by blast
    qed
  qed
qed

text \<open>Every batch but the last is full.\<close>

lemma batches_full: "b \<in> set (butlast (batches n xs)) \<Longrightarrow> length b = n"
proof (induction n xs rule: batches.induct)
  case (1 n xs)
  show ?case
  proof (cases "n = 0 \<or> xs = []")
    case True
    with 1(2) show ?thesis by (simp add: batches.simps [of n xs])
  next
    case False
    show ?thesis
    proof (cases "batches n (drop n xs) = []")
      case True
      with 1(2) False show ?thesis by (simp add: batches.simps [of n xs])
    next
      case ne: False
      then have "drop n xs \<noteq> []" by (auto simp: batches.simps [of n "drop n xs"])
      then have len: "length (take n xs) = n" by simp
      from 1(2) False ne have "b = take n xs \<or> b \<in> set (butlast (batches n (drop n xs)))"
        by (simp add: batches.simps [of n xs])
      then show ?thesis
      proof
        assume "b = take n xs"
        with len show ?thesis by simp
      next
        assume "b \<in> set (butlast (batches n (drop n xs)))"
        with 1(1) False show ?thesis by blast
      qed
    qed
  qed
qed

text \<open>
  The loop from call number \<open>k\<close> on, when the first \<open>m\<close> calls succeed and the next one, if
  there is a batch left for it, fails. The memory and the directory agree after every step.
\<close>

lemma embed_batches_run:
  assumes "in_memory st = None \<or> in_memory st = Some (disk st)"
    and "m \<le> length bs"
    and "\<forall>j<m. available emb (k + j)"
    and "m < length bs \<longrightarrow> \<not> available emb (k + m)"
  shows "fst (embed_batches emb k bs st) = (if m < length bs then Some EmbeddingError else None)
       \<and> disk (snd (embed_batches emb k bs st)) =
           disk st @ map (\<lambda>d. (embed_text emb d, d)) (concat (take m bs))
       \<and> persists (snd (embed_batches emb k bs st)) = persists st + m"
  using assms
proof (induction bs arbitrary: k st m)
  case Nil
  then show ?case by simp
next
  case (Cons b bs)
  show ?case
  proof (cases m)
    case 0
    with Cons.prems(4) have "\<not> available emb k" by simp
    with 0 show ?thesis by (simp add: add_batch_def embed_documents_def)
  next
    case (Suc m')
    with Cons.prems(3) have av: "available emb k" by auto
    let ?es = "map (\<lambda>d. (embed_text emb d, d)) b"
    let ?st' = "persist (st\<lparr>in_memory := Some (disk st @ ?es)\<rparr>)"
    have step: "add_batch emb k b st = Inr (st\<lparr>in_memory := Some (disk st @ ?es)\<rparr>)"
      using av Cons.prems(1) by (auto simp: add_batch_def embed_documents_def)
    have st': "disk ?st' = disk st @ ?es" "persists ?st' = persists st + 1"
      "in_memory ?st' = Some (disk ?st')"
      by (simp_all add: persist_def)
    have a: "in_memory ?st' = None \<or> in_memory ?st' = Some (disk ?st')"
      using st'(3) by simp
    have b: "m' \<le> length bs" using Cons.prems(2) Suc by simp
    have c: "\<forall>j<m'. available emb (Suc k + j)"
    proof (intro allI impI)
      fix j assume "j < m'"
      then have "Suc j < m" using Suc by simp
      with Cons.prems(3) have "available emb (k + Suc j)" by blast
      then show "available emb (Suc k + j)" by simp
    qed
    have d: "m' < length bs \<longrightarrow> \<not> available emb (Suc k + m')"
      using Cons.prems(4) Suc by simp
    from Cons.IH [OF a b c d] step Suc show ?thesis by (simp add: st'(1,2))
  qed
qed

text \<open>
  Claim C8. For a positive batch size the chunks are cut into consecutive batches, all of
  the batch size but possibly the last. Each batch is embedded, added to the index and the
  index persisted. If the first \<open>m\<close> batches embed and the embedding of the next one fails,
  the run ends with that error, after \<open>m\<close> persists, and the persisted index is what was there
  before followed by the chunks of these \<open>m\<close> batches, each with its own embedding. If no
  embedding fails, \<open>m\<close> is the number of batches and the run ends without error.
\<close>

theorem batched_indexing:
  assumes "0 < batch_size"
    and "m \<le> length (batches (nat batch_size) docs)"
    and "\<forall>j<m. available emb j"
    and "m < length (batches (nat batch_size) docs) \<longrightarrow> \<not> available emb m"
  shows "concat (batches (nat batch_size) docs) = docs
       \<and> (\<forall>b\<in>set (batches (nat batch_size) docs). b \<noteq> [] \<and> length b \<le> nat batch_size)
       \<and> (\<forall>b\<in>set (butlast (batches (nat batch_size) docs)). length b = nat batch_size)
       \<and> fst (pass3 emb batch_size docs existing) =
           (if m < length (batches (nat batch_size) docs) then Some EmbeddingError else None)
       \<and> disk (snd (pass3 emb batch_size docs existing)) =
           existing @
           map (\<lambda>d. (embed_text emb d, d)) (concat (take m (batches (nat batch_size) docs)))
       \<and> persists (snd (pass3 emb batch_size docs existing)) = m"
proof -
  let ?bs = "batches (nat batch_size) docs"
  let ?st = "\<lparr>in_memory = None, disk = existing, persists = 0\<rparr> :: ('a, 'b) index_state"
  have 1: "concat ?bs = docs" using assms(1) by (simp add: concat_batches)
  have 2: "\<forall>b\<in>set ?bs. b \<noteq> [] \<and> length b \<le> nat batch_size"
    using batches_sizes by blast
  have 3: "\<forall>b\<in>set (butlast ?bs). length b = nat batch_size"
    using batches_full by blast
  have p: "pass3 emb batch_size docs existing = embed_batches emb 0 ?bs ?st"
    using assms(1) by (simp add: pass3_def)
  have "in_memory ?st = None \<or> in_memory ?st = Some (disk ?st)" by simp
  moreover have "\<forall>j<m. available emb (0 + j)" using assms(3) by simp
  moreover have "m < length ?bs \<longrightarrow> \<not> available emb (0 + m)" using assms(4) by simp
  ultimately have 4:
    "fst (embed_batches emb 0 ?bs ?st) = (if m < length ?bs then Some EmbeddingError else None)
     \<and> disk (snd (embed_batches emb 0 ?bs ?st)) =
         disk ?st @ map (\<lambda>d. (embed_text emb d, d)) (concat (take m ?bs))
     \<and> persists (snd (embed_batches emb 0 ?bs ?st)) = persists ?st + m"
    using embed_batches_run [of ?st m ?bs emb 0] assms(2) by blast
  from 1 2 3 4 show ?thesis unfolding p by simp
qed

lemma batches_five_chunks:
  "batches 2 five_chunks = [[str ''a'', str ''bb''], [str ''ccc'', str ''dddd''], [str ''eeeee'']]"
  by (simp add: five_chunks_def batches.simps)

text \<open>
  The theorem at five chunks in batches of two, with an embedding model that fails on its
  second call: the first batch is persisted, the run ends with the error.
\<close>

theorem batched_indexing_witness:
  "(0::int) < 2
   \<and> 1 \<le> length (batches (nat 2) five_chunks)
   \<and> available flaky_embedder 0
   \<and> \<not> available flaky_embedder 1
   \<and> batches (nat 2) five_chunks =
       [[str ''a'', str ''bb''], [str ''ccc'', str ''dddd''], [str ''eeeee'']]
   \<and> fst (pass3 flaky_embedder 2 five_chunks []) = Some EmbeddingError
   \<and> disk (snd (pass3 flaky_embedder 2 five_chunks [])) = [(1, str ''a''), (2, str ''bb'')]
   \<and> persists (snd (pass3 flaky_embedder 2 five_chunks [])) = 1"
proof -
  have n: "nat 2 = 2" by simp
  have h1: "(0::int) < 2" by simp
  have h2: "1 \<le> length (batches (nat 2) five_chunks)"
    unfolding n batches_five_chunks by simp
  have h3: "\<forall>j<1. available flaky_embedder j" by (simp add: flaky_embedder_def)
  have h4: "1 < length (batches (nat 2) five_chunks) \<longrightarrow> \<not> available flaky_embedder 1"
    by (simp add: flaky_embedder_def)
  from batched_indexing [OF h1 h2 h3 h4, of "[]"] h3
  show ?thesis
    unfolding n batches_five_chunks
    by (simp add: flaky_embedder_def str_def)
qed

end
